theory Spec2Isabelle
  imports Main "HOL-Library.Sublist"
begin

section \<open>The authentication middleware of authmiddleware.go\<close>

text \<open>
  The middleware decides, for each HTTP request, whether a downstream handler may serve
  it. Everything the Go code does beyond computing a value is written into a trace of
  events: the log lines, the calls to the external verifiers and to the directory, the
  call of \<open>PassGatekeeper\<close>, and the three ways of answering a request. Every function
  of the source returns its Go result together with the events it emitted, in order.
\<close>

subsection \<open>Data\<close>

text \<open>A Go \<open>error\<close> value carries a message; \<open>nil\<close> is \<open>None\<close> of \<open>error option\<close>.\<close>

datatype error = errors_New string

fun Error :: "error \<Rightarrow> string" where
  "Error (errors_New msg) = msg"

datatype event =
    Log string
  | Call_CheckToken string
  | Call_Validate string
  | Call_GetGroupsForUser string
  | Call_PassGatekeeper string "string list"
  | JsonResp nat string
  | ServeHTTP
  | RedirectToLogin

text \<open>
  The process state a request is served in: the environment variables, and the answers
  of the three external collaborators (\<open>bearertoken.CheckToken\<close>, \<open>wso2jwt.Validate\<close>,
  \<open>activedir.GetGroupsForUser\<close>), each a Go pair of a value and an error.
\<close>

record world =
  environ :: "string \<rightharpoonup> string"
  CheckToken :: "string \<Rightarrow> bool \<times> error option"
  Validate :: "string \<Rightarrow> bool \<times> error option"
  GetGroupsForUser :: "string \<Rightarrow> string list \<times> error option"

text \<open>
  A request: its header map (\<open>http.Header\<close>, canonical key to list of values) and what
  the CAS client reports about its session (\<open>cas.IsAuthenticated\<close>, \<open>cas.Username\<close>).
\<close>

record request =
  Header :: "string \<rightharpoonup> string list"
  cas_IsAuthenticated :: bool
  cas_Username :: string

subsection \<open>Library functions the source calls\<close>

definition Getenv :: "world \<Rightarrow> string \<Rightarrow> string" where
  \<comment> \<open>\<open>os.Getenv\<close>: the empty string when the variable is unset.\<close>
  "Getenv w k = (case environ w k of None \<Rightarrow> [] | Some v \<Rightarrow> v)"

definition isLower :: "char \<Rightarrow> bool" where
  "isLower c = (97 \<le> (of_char c :: nat) \<and> (of_char c :: nat) \<le> 122)"

definition isUpper :: "char \<Rightarrow> bool" where
  "isUpper c = (65 \<le> (of_char c :: nat) \<and> (of_char c :: nat) \<le> 90)"

definition isDigit :: "char \<Rightarrow> bool" where
  "isDigit c = (48 \<le> (of_char c :: nat) \<and> (of_char c :: nat) \<le> 57)"

definition toLower :: "char \<Rightarrow> char" where
  "toLower c = (if isUpper c then char_of ((of_char c :: nat) + 32) else c)"

definition toUpper :: "char \<Rightarrow> char" where
  "toUpper c = (if isLower c then char_of ((of_char c :: nat) - 32) else c)"

definition validHeaderFieldByte :: "char \<Rightarrow> bool" where
  \<comment> \<open>The token characters of RFC 7230.\<close>
  "validHeaderFieldByte c =
     (isLower c \<or> isUpper c \<or> isDigit c \<or> List.member ''!#$%&*+-.^_`|~'' c \<or> of_char c = (39::nat))"

fun canonical :: "bool \<Rightarrow> string \<Rightarrow> string" where
  "canonical upper [] = []"
| "canonical upper (c # cs) =
     (let c' = (if upper \<and> isLower c then toUpper c
                else if \<not> upper \<and> isUpper c then toLower c else c)
      in c' # canonical (c' = CHR ''-'') cs)"

definition CanonicalMIMEHeaderKey :: "string \<Rightarrow> string" where
  \<comment> \<open>\<open>textproto.CanonicalMIMEHeaderKey\<close>: a key with a byte that is no token character
      is returned unchanged; otherwise the first letter and each letter after a hyphen
      are upper case, the others lower case.\<close>
  "CanonicalMIMEHeaderKey s = (if list_all validHeaderFieldByte s then canonical True s else s)"

definition Header_Get :: "(string \<rightharpoonup> string list) \<Rightarrow> string \<Rightarrow> string" where
  \<comment> \<open>\<open>http.Header.Get\<close>: the first value under the canonical key, or the empty string.\<close>
  "Header_Get h key =
     (case h (CanonicalMIMEHeaderKey key) of
        None \<Rightarrow> []
      | Some [] \<Rightarrow> []
      | Some (v # _) \<Rightarrow> v)"

fun genSplit :: "char \<Rightarrow> string \<Rightarrow> string \<Rightarrow> string \<Rightarrow> string list" where
  "genSplit d ds acc [] = [rev acc]"
| "genSplit d ds acc (c # cs) =
     (if prefix (d # ds) (c # cs)
      then rev acc # genSplit d ds [] (drop (length ds) cs)
      else genSplit d ds (c # acc) cs)"

definition Split :: "string \<Rightarrow> string \<Rightarrow> string list" where
  \<comment> \<open>\<open>strings.Split s sep\<close>: cut \<open>s\<close> at every occurrence of \<open>sep\<close>, leftmost first.
      The source calls it with the separators \<open>" "\<close> and \<open>", "\<close> only; with an empty
      separator Go cuts after each UTF-8 sequence, written here for single bytes.\<close>
  "Split s sep = (case sep of [] \<Rightarrow> map (\<lambda>c. [c]) s | d # ds \<Rightarrow> genSplit d ds [] s)"

definition EqualFold :: "string \<Rightarrow> string \<Rightarrow> bool" where
  \<comment> \<open>\<open>strings.EqualFold\<close> on the ASCII letters. Unicode folding adds to the ASCII
      letters only the Kelvin sign (k) and the long s (s), so this is what Go computes
      whenever one argument is \<open>"Bearer"\<close>, as at the source's only call.\<close>
  "EqualFold s t = (map toLower s = map toLower t)"

definition StatusBadRequest :: nat where
  "StatusBadRequest = 400"

subsection \<open>The machine checks\<close>

definition checkLocal :: "world \<Rightarrow> (bool \<times> error option) \<times> event list" where
  "checkLocal w =
     (if length (Getenv w ''LOCAL_ENVIRONMENT'') > 0
      then ((True, None), [Log ''Local check starting'', Log ''Authorized via LOCAL_ENVIRONMENT''])
      else ((False, None), [Log ''Local check starting'', Log ''Local check finished'']))"

definition checkBearerToken :: "world \<Rightarrow> request \<Rightarrow> (bool \<times> error option) \<times> event list" where
  "checkBearerToken w r =
     (let token = Header_Get (Header r) ''Authorization'';
          t0 = [Log ''Bearer token check starting'']
      in if length token > 0 then
           (let parts = Split token '' ''
            in if length parts \<noteq> 2 \<or> \<not> EqualFold (parts ! 0) ''Bearer''
               then ((False, Some (errors_New ''Bad Authorization header'')), t0)
               else (let (valid, err) = CheckToken w (parts ! 1);
                         t1 = t0 @ [Call_CheckToken (parts ! 1)]
                     in if err \<noteq> None then ((False, err), t1)
                        else if valid then ((True, None), t1 @ [Log ''Bearer token authorized''])
                        else ((False, None), t1 @ [Log ''Bearer token check finished''])))
         else ((False, None), t0 @ [Log ''Bearer token check finished'']))"

definition checkWSO2 :: "world \<Rightarrow> request \<Rightarrow> (bool \<times> error option) \<times> event list" where
  "checkWSO2 w r =
     (let token = Header_Get (Header r) ''X-jwt-assertion'';
          t0 = [Log ''WSO2 check starting'']
      in if length token > 0 then
           (let (valid, err) = Validate w token;
                t1 = t0 @ [Call_Validate token]
            in if err \<noteq> None then ((False, err), t1 @ [Log ''Invalid WSO2 information''])
               else if valid then ((True, None), t1 @ [Log ''WSO2 validated successfully''])
               else ((False, None), t1 @ [Log ''WSO2 check finished'']))
         else ((False, None), t0 @ [Log ''WSO2 check finished'']))"

definition MachineChecks :: "world \<Rightarrow> request \<Rightarrow> (bool \<times> error option) \<times> event list" where
  "MachineChecks w request =
     (let ((passed, err), t1) = checkLocal w
      in if err \<noteq> None then ((passed, err), t1)
         else if passed then ((passed, None), t1)
         else (let ((passed, err), t2) = checkBearerToken w request
               in if err \<noteq> None then ((passed, err), t1 @ t2)
                  else if passed then ((passed, None), t1 @ t2)
                  else (let ((passed, err), t3) = checkWSO2 w request
                        in if err \<noteq> None then ((passed, err), t1 @ t2 @ t3)
                           else if passed then ((passed, None), t1 @ t2 @ t3)
                           else ((passed, err), t1 @ t2 @ t3))))"

subsection \<open>The group check\<close>

fun matchGroup :: "string \<Rightarrow> string list \<Rightarrow> bool" where
  \<comment> \<open>The inner loop, over \<open>ADGroups\<close>, for one element of \<open>control\<close>.\<close>
  "matchGroup c [] = False"
| "matchGroup c (g # gs) = (if c = g then True else matchGroup c gs)"

fun matchControl :: "string list \<Rightarrow> string list \<Rightarrow> bool" where
  \<comment> \<open>The outer loop, over \<open>control\<close>; falling out of it is \<open>return false\<close>.\<close>
  "matchControl [] ADGroups = False"
| "matchControl (c # cs) ADGroups = (if matchGroup c ADGroups then True else matchControl cs ADGroups)"

definition PassGatekeeper :: "world \<Rightarrow> string \<Rightarrow> string list \<Rightarrow> bool \<times> event list" where
  "PassGatekeeper w user control =
     (let (ADGroups, err) = GetGroupsForUser w user;
          t0 = [Call_PassGatekeeper user control, Call_GetGroupsForUser user]
      in case err of
           Some e \<Rightarrow> (False, t0 @ [Log (''Error getting groups for the user: '' @ Error e)])
         | None \<Rightarrow> (matchControl control ADGroups, t0))"

subsection \<open>The two middlewares\<close>

text \<open>
  Each middleware is the body of the handler it returns, run once per request. Writing a
  JSON response (\<open>jsonresp.New\<close>), calling the downstream handler (\<open>next.ServeHTTP\<close>)
  and \<open>cas.RedirectToLogin\<close> are one event each. The wrapper that the external CAS
  client puts around the handler of \<open>AuthenticateUser\<close> is not part of the source.
\<close>

definition Authenticate :: "world \<Rightarrow> request \<Rightarrow> event list" where
  "Authenticate w request =
     (let ((passed, err), t) = MachineChecks w request
      in case err of
           Some e \<Rightarrow> t @ [JsonResp StatusBadRequest (Error e)]
         | None \<Rightarrow> if passed then t @ [ServeHTTP]
                   else t @ [JsonResp StatusBadRequest ''Not authorized''])"

definition AuthenticateUser :: "world \<Rightarrow> request \<Rightarrow> event list" where
  "AuthenticateUser w r =
     (let ((passed, err), t) = MachineChecks w r
      in case err of
           Some e \<Rightarrow> t @ [JsonResp StatusBadRequest (Error e)]
         | None \<Rightarrow>
             (let t1 = (if passed then t @ [ServeHTTP] else t)
              in if \<not> passed then
                   (if \<not> cas_IsAuthenticated r then t1 @ [RedirectToLogin]
                    else (let control = Split (Getenv w ''GEN_CONTROL_GROUPS'') '', '';
                              (access, t2) = PassGatekeeper w (cas_Username r) control;
                              t3 = (if access then t1 @ t2 @ [ServeHTTP] else t1 @ t2)
                          in if \<not> access
                             then t3 @ [JsonResp StatusBadRequest ''Not authorized'']
                             else t3))
                 else t1))"

subsection \<open>Reading a trace\<close>

fun is_response :: "event \<Rightarrow> bool" where
  "is_response (JsonResp status msg) = True"
| "is_response ServeHTTP = True"
| "is_response RedirectToLogin = True"
| "is_response _ = False"

definition responses :: "event list \<Rightarrow> event list" where
  "responses t = filter is_response t"

fun is_verifier_call :: "event \<Rightarrow> bool" where
  "is_verifier_call (Call_CheckToken tok) = True"
| "is_verifier_call (Call_Validate tok) = True"
| "is_verifier_call _ = False"

fun is_gatekeeper_call :: "event \<Rightarrow> bool" where
  "is_gatekeeper_call (Call_PassGatekeeper user control) = True"
| "is_gatekeeper_call _ = False"

fun is_user_check :: "event \<Rightarrow> bool" where
  "is_user_check (Call_PassGatekeeper user control) = True"
| "is_user_check (Call_GetGroupsForUser user) = True"
| "is_user_check RedirectToLogin = True"
| "is_user_check _ = False"

fun is_machine_event :: "event \<Rightarrow> bool" where
  \<comment> \<open>The events the three machine checks can emit.\<close>
  "is_machine_event (Log msg) = True"
| "is_machine_event (Call_CheckToken tok) = True"
| "is_machine_event (Call_Validate tok) = True"
| "is_machine_event _ = False"

subsection \<open>The cascade as the specification words it\<close>

text \<open>
  The specification's rule for a cascade of checks, each given as its verdict and the
  events it emits when run: an error halts the cascade and is returned, a pass halts it
  with \<open>(true, nil)\<close>, a denial continues with the next check, and a cascade that runs
  out of checks denies. The events of a check that is not reached do not occur.
\<close>

fun spec_cascade ::
  "((bool \<times> error option) \<times> event list) list \<Rightarrow> (bool \<times> error option) \<times> event list" where
  "spec_cascade [] = ((False, None), [])"
| "spec_cascade ((verdict, t) # rest) =
     (case verdict of
        (passed, Some e) \<Rightarrow> ((passed, Some e), t)
      | (True, None) \<Rightarrow> ((True, None), t)
      | (False, None) \<Rightarrow> (let (verdict', t') = spec_cascade rest in (verdict', t @ t')))"

subsection \<open>Concrete process states and requests\<close>

definition example_world :: world where
  \<comment> \<open>No environment variable set; one good bearer token; a directory that knows jdoe.\<close>
  "example_world =
     \<lparr>environ = Map.empty,
      CheckToken = (\<lambda>tok. (tok = ''good'', None)),
      Validate = (\<lambda>tok. (False, Some (errors_New ''bad assertion''))),
      GetGroupsForUser = (\<lambda>user. if user = ''jdoe'' then ([''staff'', ''alumni''], None)
                                  else ([], Some (errors_New ''no such user'')))\<rparr>"

definition local_world :: world where
  "local_world = example_world\<lparr>environ := [''LOCAL_ENVIRONMENT'' \<mapsto> ''true'']\<rparr>"

definition admins_world :: world where
  "admins_world = example_world\<lparr>environ := [''GEN_CONTROL_GROUPS'' \<mapsto> ''admins'']\<rparr>"

definition staff_world :: world where
  \<comment> \<open>The state \<open>admins_world\<close> after the variable has been set to another value.\<close>
  "staff_world =
     admins_world\<lparr>environ := (environ admins_world)(''GEN_CONTROL_GROUPS'' \<mapsto> ''staff'')\<rparr>"

definition blank_group_world :: world where
  \<comment> \<open>A directory whose answer holds the empty group identifier.\<close>
  "blank_group_world =
     example_world\<lparr>GetGroupsForUser := (\<lambda>user. ([''students'', []], None))\<rparr>"

definition anonymous_request :: request where
  "anonymous_request = \<lparr>Header = Map.empty, cas_IsAuthenticated = False, cas_Username = []\<rparr>"

definition bearer_request :: "string \<Rightarrow> request" where
  \<comment> \<open>A request with the one header \<open>Authorization: v\<close>.\<close>
  "bearer_request v = anonymous_request\<lparr>Header := [''Authorization'' \<mapsto> [v]]\<rparr>"

definition session_request :: "string \<Rightarrow> request" where
  \<comment> \<open>A request without credentials, in an established CAS session of \<open>user\<close>.\<close>
  "session_request user = anonymous_request\<lparr>cas_IsAuthenticated := True, cas_Username := user\<rparr>"

section \<open>Properties\<close>

subsection \<open>Library functions\<close>

lemma canonical_Authorization: "CanonicalMIMEHeaderKey ''Authorization'' = ''Authorization''"
  by code_simp

lemma canonical_jwt: "CanonicalMIMEHeaderKey ''X-jwt-assertion'' = ''X-Jwt-Assertion''"
  by code_simp

lemma genSplit_nonempty: "genSplit d ds acc s \<noteq> []"
  by (induction d ds acc s rule: genSplit.induct) auto

lemma Split_nonempty: "Split s '', '' \<noteq> []"
  by (simp add: Split_def genSplit_nonempty)

lemmas eval_defs = MachineChecks_def checkLocal_def checkBearerToken_def checkWSO2_def Getenv_def
  Header_Get_def canonical_Authorization canonical_jwt Split_def EqualFold_def
  Authenticate_def AuthenticateUser_def PassGatekeeper_def responses_def StatusBadRequest_def
  example_world_def local_world_def anonymous_request_def bearer_request_def session_request_def

subsection \<open>What the machine checks emit\<close>

lemma checkLocal_events: "list_all is_machine_event (snd (checkLocal w))"
  by (simp add: checkLocal_def)

lemma checkBearerToken_events: "list_all is_machine_event (snd (checkBearerToken w r))"
  by (simp add: checkBearerToken_def Let_def split: prod.splits)

lemma checkWSO2_events: "list_all is_machine_event (snd (checkWSO2 w r))"
  by (simp add: checkWSO2_def Let_def split: prod.splits)

lemma checkLocal_set:
  "Getenv w ''LOCAL_ENVIRONMENT'' \<noteq> [] \<Longrightarrow>
   checkLocal w = ((True, None), [Log ''Local check starting'', Log ''Authorized via LOCAL_ENVIRONMENT''])"
  by (simp add: checkLocal_def)

lemma checkLocal_unset:
  "Getenv w ''LOCAL_ENVIRONMENT'' = [] \<Longrightarrow>
   checkLocal w = ((False, None), [Log ''Local check starting'', Log ''Local check finished''])"
  by (simp add: checkLocal_def)

lemma MachineChecks_eq:
  "MachineChecks w r =
     (if snd (fst (checkLocal w)) \<noteq> None \<or> fst (fst (checkLocal w)) then checkLocal w
      else if snd (fst (checkBearerToken w r)) \<noteq> None \<or> fst (fst (checkBearerToken w r))
        then (fst (checkBearerToken w r), snd (checkLocal w) @ snd (checkBearerToken w r))
      else (fst (checkWSO2 w r), snd (checkLocal w) @ snd (checkBearerToken w r) @ snd (checkWSO2 w r)))"
  by (auto simp add: MachineChecks_def split: prod.splits)

lemma MachineChecks_events: "list_all is_machine_event (snd (MachineChecks w r))"
  using checkLocal_events [of w] checkBearerToken_events [of w r] checkWSO2_events [of w r]
  by (simp add: MachineChecks_eq)

lemma machine_event_not_response: "list_all is_machine_event t \<Longrightarrow> filter is_response t = []"
  by (induction t) (auto elim: is_machine_event.elims)

lemma machine_event_not_user_check: "list_all is_machine_event t \<Longrightarrow> \<not> list_ex is_user_check t"
  by (induction t) (auto elim: is_machine_event.elims)

lemma machine_event_not_gatekeeper: "list_all is_machine_event t \<Longrightarrow> Call_PassGatekeeper u c \<notin> set t"
  by (induction t) auto

lemma machine_event_not_gatekeeper_call:
  "list_all is_machine_event t \<Longrightarrow> \<not> list_ex is_gatekeeper_call t"
  by (induction t) (auto elim: is_machine_event.elims)

subsection \<open>The loops of the group check\<close>

lemma matchGroup_iff: "matchGroup c gs \<longleftrightarrow> c \<in> set gs"
  by (induction gs) auto

lemma matchControl_iff: "matchControl control gs \<longleftrightarrow> set gs \<inter> set control \<noteq> {}"
  by (induction control) (auto simp add: matchGroup_iff)

lemma PassGatekeeper_responses: "filter is_response (snd (PassGatekeeper w user control)) = []"
  by (simp add: PassGatekeeper_def Let_def split: prod.splits option.splits)

lemma PassGatekeeper_calls:
  "Call_PassGatekeeper u c \<in> set (snd (PassGatekeeper w user control)) \<longleftrightarrow> u = user \<and> c = control"
  by (auto simp add: PassGatekeeper_def Let_def split: prod.splits option.splits)

subsection \<open>The user middleware by outcome\<close>

lemma AuthenticateUser_eq:
  "AuthenticateUser w r =
     (case fst (MachineChecks w r) of
        (passed, Some e) \<Rightarrow> snd (MachineChecks w r) @ [JsonResp 400 (Error e)]
      | (True, None) \<Rightarrow> snd (MachineChecks w r) @ [ServeHTTP]
      | (False, None) \<Rightarrow>
          if \<not> cas_IsAuthenticated r then snd (MachineChecks w r) @ [RedirectToLogin]
          else snd (MachineChecks w r) @
               snd (PassGatekeeper w (cas_Username r) (Split (Getenv w ''GEN_CONTROL_GROUPS'') '', '')) @
               [if fst (PassGatekeeper w (cas_Username r) (Split (Getenv w ''GEN_CONTROL_GROUPS'') '', ''))
                then ServeHTTP else JsonResp 400 ''Not authorized''])"
  by (cases "MachineChecks w r";
      cases "PassGatekeeper w (cas_Username r) (Split (Getenv w ''GEN_CONTROL_GROUPS'') '', '')")
     (auto simp add: AuthenticateUser_def Let_def StatusBadRequest_def split: option.splits)

lemma AuthenticateUser_control:
  "Call_PassGatekeeper u c \<in> set (AuthenticateUser w r) \<Longrightarrow>
   c = Split (Getenv w ''GEN_CONTROL_GROUPS'') '', ''"
  using machine_event_not_gatekeeper [OF MachineChecks_events [of w r], of u c]
  by (cases "MachineChecks w r")
     (auto simp add: AuthenticateUser_eq PassGatekeeper_calls split: option.splits bool.splits if_splits)

section \<open>The claims\<close>

text \<open>
  Claim C1. \<open>MachineChecks\<close> runs the environment bypass, then the bearer check, then
  the federated JWT check, and short-circuits: its verdict and the events it emits are
  those of the specification's cascade over the three checks in that order. An error of
  a check is returned and nothing later runs, a pass gives \<open>(true, nil)\<close> and nothing
  later runs, a denial goes on to the next check.
\<close>

theorem MachineChecks_order_short_circuit:
  "MachineChecks w r = spec_cascade [checkLocal w, checkBearerToken w r, checkWSO2 w r]"
  by (cases "checkLocal w"; cases "checkBearerToken w r"; cases "checkWSO2 w r")
     (auto simp add: MachineChecks_def split: option.splits bool.splits)

theorem MachineChecks_order_short_circuit_witness:
  "spec_cascade [checkLocal example_world, checkBearerToken example_world (bearer_request ''xyz''),
                 checkWSO2 example_world (bearer_request ''xyz'')] =
   ((False, Some (errors_New ''Bad Authorization header'')),
    [Log ''Local check starting'', Log ''Local check finished'', Log ''Bearer token check starting''])"
proof -
  have "MachineChecks example_world (bearer_request ''xyz'') =
    ((False, Some (errors_New ''Bad Authorization header'')),
     [Log ''Local check starting'', Log ''Local check finished'', Log ''Bearer token check starting''])"
    by (simp add: eval_defs)
  then show ?thesis
    using MachineChecks_order_short_circuit [of example_world "bearer_request ''xyz''"] by simp
qed

text \<open>
  Claim C2, as stated, fails twice. A request whose \<open>Authorization\<close> header is present
  with an empty value has one space-separated part, yet \<open>checkBearerToken\<close> answers
  \<open>(false, nil)\<close>: the check is guarded by \<open>len(token) > 0\<close>. And with
  \<open>LOCAL_ENVIRONMENT\<close> set, the machine-only middleware serves a request whose header is
  \<open>xyz\<close>, since the bearer check is never reached.
\<close>

theorem malformed_Authorization_counterexample:
  "Header (bearer_request []) ''Authorization'' = Some [[]] \<and>
   length (Split (Header_Get (Header (bearer_request [])) ''Authorization'') '' '') \<noteq> 2 \<and>
   fst (checkBearerToken example_world (bearer_request [])) = (False, None) \<and>
   Header (bearer_request ''xyz'') ''Authorization'' = Some [''xyz''] \<and>
   length (Split (Header_Get (Header (bearer_request ''xyz'')) ''Authorization'') '' '') \<noteq> 2 \<and>
   responses (Authenticate local_world (bearer_request ''xyz'')) = [ServeHTTP]"
  by (simp add: eval_defs)

text \<open>
  Claim C2, amended. For every request whose \<open>Authorization\<close> header value is non-empty
  and is not exactly two space-separated parts, or has a first part that is not
  case-insensitively \<open>Bearer\<close>, \<open>checkBearerToken\<close> returns the error
  \<open>Bad Authorization header\<close>, never \<open>(false, nil)\<close>; and when the environment bypass
  is unset, the machine-only middleware answers with one 400 response carrying that message.
\<close>

theorem malformed_Authorization_is_error:
  "Header_Get (Header r) ''Authorization'' = token \<Longrightarrow> token \<noteq> [] \<Longrightarrow>
   length (Split token '' '') \<noteq> 2 \<or> \<not> EqualFold (Split token '' '' ! 0) ''Bearer'' \<Longrightarrow>
   fst (checkBearerToken w r) = (False, Some (errors_New ''Bad Authorization header'')) \<and>
   (Getenv w ''LOCAL_ENVIRONMENT'' = [] \<longrightarrow>
      responses (Authenticate w r) = [JsonResp 400 ''Bad Authorization header''])"
proof -
  assume tok: "Header_Get (Header r) ''Authorization'' = token" "token \<noteq> []"
    and bad: "length (Split token '' '') \<noteq> 2 \<or> \<not> EqualFold (Split token '' '' ! 0) ''Bearer''"
  have bearer: "checkBearerToken w r =
      ((False, Some (errors_New ''Bad Authorization header'')), [Log ''Bearer token check starting''])"
    using tok bad by (auto simp add: checkBearerToken_def Let_def)
  have "responses (Authenticate w r) = [JsonResp 400 ''Bad Authorization header'']"
    if "Getenv w ''LOCAL_ENVIRONMENT'' = []"
    using that bearer
    by (simp add: Authenticate_def MachineChecks_eq checkLocal_unset responses_def StatusBadRequest_def)
  with bearer show ?thesis by simp
qed

theorem malformed_Authorization_is_error_witness:
  "fst (checkBearerToken example_world (bearer_request ''xyz'')) =
     (False, Some (errors_New ''Bad Authorization header'')) \<and>
   responses (Authenticate example_world (bearer_request ''xyz'')) =
     [JsonResp 400 ''Bad Authorization header'']"
  using malformed_Authorization_is_error [of "bearer_request ''xyz''" "''xyz''" example_world]
  by (simp add: Header_Get_def canonical_Authorization Split_def Getenv_def example_world_def
      bearer_request_def anonymous_request_def)

text \<open>
  Claim C3. When the directory lookup succeeds, \<open>PassGatekeeper\<close> returns true exactly
  when the user's groups and the allow-list share an element; when the lookup fails it
  returns false. Its result is a boolean, and it writes no response of its own.
\<close>

theorem PassGatekeeper_intersection_fail_closed:
  "(snd (GetGroupsForUser w user) = None \<longrightarrow>
      (fst (PassGatekeeper w user control) \<longleftrightarrow>
         set (fst (GetGroupsForUser w user)) \<inter> set control \<noteq> {})) \<and>
   (snd (GetGroupsForUser w user) \<noteq> None \<longrightarrow> fst (PassGatekeeper w user control) = False) \<and>
   responses (snd (PassGatekeeper w user control)) = []"
  by (cases "GetGroupsForUser w user")
     (auto simp add: PassGatekeeper_def Let_def matchControl_iff responses_def split: option.splits)

theorem PassGatekeeper_intersection_fail_closed_witness:
  "fst (PassGatekeeper example_world ''jdoe'' [''admins'', ''staff'']) \<and>
   \<not> fst (PassGatekeeper example_world ''ghost'' [''admins'', ''staff''])"
  using PassGatekeeper_intersection_fail_closed [of example_world "''jdoe''" "[''admins'', ''staff'']"]
        PassGatekeeper_intersection_fail_closed [of example_world "''ghost''" "[''admins'', ''staff'']"]
  by (simp add: example_world_def)

text \<open>
  Claim C4. When the local-environment flag is set, that is when \<open>LOCAL_ENVIRONMENT\<close>
  has a non-empty value, \<open>MachineChecks\<close> returns \<open>(true, nil)\<close> whatever the request
  carries, and calls neither the bearer verifier nor the JWT verifier.
\<close>

theorem local_environment_bypass:
  "Getenv w ''LOCAL_ENVIRONMENT'' \<noteq> [] \<Longrightarrow>
   fst (MachineChecks w r) = (True, None) \<and> \<not> list_ex is_verifier_call (snd (MachineChecks w r))"
  by (simp add: MachineChecks_eq checkLocal_set)

theorem local_environment_bypass_witness:
  "fst (MachineChecks local_world (bearer_request ''xyz'')) = (True, None) \<and>
   \<not> list_ex is_verifier_call (snd (MachineChecks local_world (bearer_request ''xyz'')))"
  using local_environment_bypass [of local_world "bearer_request ''xyz''"]
  by (simp add: Getenv_def local_world_def)

text \<open>
  Claim C5. A request that carries neither an \<open>Authorization\<close> header nor an
  \<open>X-jwt-assertion\<close> header (stored by the server under its canonical key
  \<open>X-Jwt-Assertion\<close>), served with the environment bypass unset, gets \<open>(false, nil)\<close>
  from \<open>MachineChecks\<close>: a denial without an error.
\<close>

theorem no_credentials_clean_denial:
  "Header r ''Authorization'' = None \<Longrightarrow> Header r ''X-Jwt-Assertion'' = None \<Longrightarrow>
   Getenv w ''LOCAL_ENVIRONMENT'' = [] \<Longrightarrow>
   fst (MachineChecks w r) = (False, None)"
  by (simp add: MachineChecks_eq checkLocal_unset checkBearerToken_def checkWSO2_def Header_Get_def
      canonical_Authorization canonical_jwt)

theorem no_credentials_clean_denial_witness:
  "fst (MachineChecks example_world anonymous_request) = (False, None)"
  using no_credentials_clean_denial [of anonymous_request example_world]
  by (simp add: Getenv_def example_world_def anonymous_request_def)

text \<open>
  Claim C6. The machine-only middleware answers every request with exactly one action,
  fixed by the verdict of \<open>MachineChecks\<close>: a 400 response with the error's message on an
  error, the downstream handler on \<open>(true, nil)\<close>, a 400 response \<open>Not authorized\<close> on
  \<open>(false, nil)\<close>. It never redirects to the login, calls \<open>PassGatekeeper\<close> or asks the
  directory.
\<close>

theorem Authenticate_terminal_outcomes:
  "responses (Authenticate w r) =
     (case fst (MachineChecks w r) of
        (passed, Some e) \<Rightarrow> [JsonResp 400 (Error e)]
      | (True, None) \<Rightarrow> [ServeHTTP]
      | (False, None) \<Rightarrow> [JsonResp 400 ''Not authorized'']) \<and>
   \<not> list_ex is_user_check (Authenticate w r)"
  using machine_event_not_response [OF MachineChecks_events [of w r]]
        machine_event_not_user_check [OF MachineChecks_events [of w r]]
  by (cases "MachineChecks w r")
     (auto simp add: Authenticate_def responses_def StatusBadRequest_def list_ex_iff
        split: option.splits if_splits)

theorem Authenticate_terminal_outcomes_witness:
  "responses (Authenticate example_world (bearer_request ''xyz'')) =
     [JsonResp 400 ''Bad Authorization header''] \<and>
   responses (Authenticate example_world (bearer_request ''Bearer good'')) = [ServeHTTP] \<and>
   responses (Authenticate example_world anonymous_request) = [JsonResp 400 ''Not authorized'']"
proof -
  have "fst (MachineChecks example_world (bearer_request ''xyz'')) =
      (False, Some (errors_New ''Bad Authorization header''))"
    and "fst (MachineChecks example_world (bearer_request ''Bearer good'')) = (True, None)"
    and "fst (MachineChecks example_world anonymous_request) = (False, None)"
    by (simp_all add: eval_defs)
  then show ?thesis
    using Authenticate_terminal_outcomes [of example_world "bearer_request ''xyz''"]
          Authenticate_terminal_outcomes [of example_world "bearer_request ''Bearer good''"]
          Authenticate_terminal_outcomes [of example_world anonymous_request]
    by simp
qed

text \<open>
  Claim C7, as stated, fails: the allow-list is not loaded at process start. The same
  request of the same user, served in two states of one process that differ only in the
  value of \<open>GEN_CONTROL_GROUPS\<close>, reaches \<open>PassGatekeeper\<close> with two different
  allow-lists, and is refused in one state and served in the other.
\<close>

theorem control_groups_loaded_once_counterexample:
  "Call_PassGatekeeper ''jdoe'' [''admins''] \<in> set (AuthenticateUser admins_world (session_request ''jdoe'')) \<and>
   responses (AuthenticateUser admins_world (session_request ''jdoe'')) = [JsonResp 400 ''Not authorized''] \<and>
   Call_PassGatekeeper ''jdoe'' [''staff''] \<in> set (AuthenticateUser staff_world (session_request ''jdoe'')) \<and>
   responses (AuthenticateUser staff_world (session_request ''jdoe'')) = [ServeHTTP]"
  by (simp add: eval_defs admins_world_def staff_world_def)

text \<open>
  Claim C7, amended. The allow-list is read when a request is served: whenever the user
  middleware calls \<open>PassGatekeeper\<close>, the list it passes is the value that
  \<open>GEN_CONTROL_GROUPS\<close> has at that moment, split at \<open>", "\<close>. Requests served while the
  variable holds one value therefore see one allow-list.
\<close>

theorem control_groups_read_per_request:
  "Call_PassGatekeeper u c \<in> set (AuthenticateUser w r) \<Longrightarrow>
   c = Split (Getenv w ''GEN_CONTROL_GROUPS'') '', ''"
  by (rule AuthenticateUser_control)

theorem control_groups_read_per_request_witness:
  "Call_PassGatekeeper ''jdoe'' [''staff''] \<in> set (AuthenticateUser staff_world (session_request ''jdoe'')) \<and>
   [''staff''] = Split (Getenv staff_world ''GEN_CONTROL_GROUPS'') '', ''"
proof -
  have called: "Call_PassGatekeeper ''jdoe'' [''staff''] \<in>
      set (AuthenticateUser staff_world (session_request ''jdoe''))"
    by (simp add: eval_defs admins_world_def staff_world_def)
  from called control_groups_read_per_request [OF called] show ?thesis by (intro conjI)
qed

text \<open>
  Claim C8. In the user middleware, when the machine checks return \<open>(false, nil)\<close> and
  the request has no CAS session, the one response is the redirect to the login, and
  \<open>PassGatekeeper\<close> is not called.
\<close>

theorem no_session_redirect_without_gatekeeper:
  "fst (MachineChecks w r) = (False, None) \<Longrightarrow> \<not> cas_IsAuthenticated r \<Longrightarrow>
   responses (AuthenticateUser w r) = [RedirectToLogin] \<and>
   \<not> list_ex is_gatekeeper_call (AuthenticateUser w r)"
  using machine_event_not_response [OF MachineChecks_events [of w r]]
        machine_event_not_gatekeeper_call [OF MachineChecks_events [of w r]]
  by (simp add: AuthenticateUser_eq responses_def)

theorem no_session_redirect_without_gatekeeper_witness:
  "responses (AuthenticateUser example_world anonymous_request) = [RedirectToLogin] \<and>
   \<not> list_ex is_gatekeeper_call (AuthenticateUser example_world anonymous_request)"
proof -
  have "fst (MachineChecks example_world anonymous_request) = (False, None)"
    by (simp add: eval_defs)
  moreover have "\<not> cas_IsAuthenticated anonymous_request"
    by (simp add: anonymous_request_def)
  ultimately show ?thesis
    by (rule no_session_redirect_without_gatekeeper)
qed

text \<open>
  Claim C9. The handler of the user middleware produces exactly one response action for
  every request: the downstream handler, a login redirect, or a 400 response; and that
  action is the last thing it does, so nothing is written after a response.
\<close>

theorem AuthenticateUser_single_response:
  "(responses (AuthenticateUser w r) = [ServeHTTP] \<or>
    responses (AuthenticateUser w r) = [RedirectToLogin] \<or>
    (\<exists>msg. responses (AuthenticateUser w r) = [JsonResp 400 msg])) \<and>
   is_response (last (AuthenticateUser w r))"
  using machine_event_not_response [OF MachineChecks_events [of w r]]
        PassGatekeeper_responses [of w "cas_Username r" "Split (Getenv w ''GEN_CONTROL_GROUPS'') '', ''"]
  by (cases "MachineChecks w r")
     (auto simp add: AuthenticateUser_eq responses_def split: option.splits bool.splits)

theorem AuthenticateUser_single_response_witness:
  "length (responses (AuthenticateUser example_world (session_request ''jdoe''))) = 1 \<and>
   is_response (last (AuthenticateUser example_world (session_request ''jdoe'')))"
  using AuthenticateUser_single_response [of example_world "session_request ''jdoe''"] by auto

text \<open>
  Claim C10. The allow-list that reaches \<open>PassGatekeeper\<close> is never the empty list. When
  \<open>GEN_CONTROL_GROUPS\<close> is unset or empty it is the one-element list holding the empty
  string, so a user in a session whose directory groups include the empty identifier is
  served.
\<close>

theorem unset_control_groups_blank_entry:
  "(Call_PassGatekeeper u c \<in> set (AuthenticateUser w r) \<longrightarrow> c \<noteq> []) \<and>
   (Getenv w ''GEN_CONTROL_GROUPS'' = [] \<and> fst (MachineChecks w r) = (False, None) \<and>
    cas_IsAuthenticated r \<and> snd (GetGroupsForUser w (cas_Username r)) = None \<and>
    [] \<in> set (fst (GetGroupsForUser w (cas_Username r))) \<longrightarrow>
      Call_PassGatekeeper (cas_Username r) [[]] \<in> set (AuthenticateUser w r) \<and>
      responses (AuthenticateUser w r) = [ServeHTTP])"
proof -
  have never_empty: "c \<noteq> []" if "Call_PassGatekeeper u c \<in> set (AuthenticateUser w r)"
    using AuthenticateUser_control [OF that] by (simp add: Split_nonempty)
  have blank: "Call_PassGatekeeper (cas_Username r) [[]] \<in> set (AuthenticateUser w r) \<and>
      responses (AuthenticateUser w r) = [ServeHTTP]"
    if unset: "Getenv w ''GEN_CONTROL_GROUPS'' = []"
      and denied: "fst (MachineChecks w r) = (False, None)"
      and session: "cas_IsAuthenticated r"
      and found: "snd (GetGroupsForUser w (cas_Username r)) = None"
      and member: "[] \<in> set (fst (GetGroupsForUser w (cas_Username r)))"
  proof -
    have control: "Split (Getenv w ''GEN_CONTROL_GROUPS'') '', '' = [[]]"
      using unset by (simp add: Split_def)
    have access: "PassGatekeeper w (cas_Username r) [[]] =
        (True, [Call_PassGatekeeper (cas_Username r) [[]], Call_GetGroupsForUser (cas_Username r)])"
      using found member
      by (cases "GetGroupsForUser w (cas_Username r)")
         (simp add: PassGatekeeper_def matchGroup_iff)
    show ?thesis
      using machine_event_not_response [OF MachineChecks_events [of w r]]
      by (simp add: AuthenticateUser_eq denied session control access responses_def)
  qed
  from never_empty blank show ?thesis by blast
qed

theorem unset_control_groups_blank_entry_witness:
  "Call_PassGatekeeper ''jdoe'' [[]] \<in> set (AuthenticateUser blank_group_world (session_request ''jdoe'')) \<and>
   responses (AuthenticateUser blank_group_world (session_request ''jdoe'')) = [ServeHTTP]"
proof -
  have "fst (MachineChecks blank_group_world (session_request ''jdoe'')) = (False, None)"
    by (simp add: eval_defs blank_group_world_def)
  then show ?thesis
    using unset_control_groups_blank_entry [of "''jdoe''" "[[]]" blank_group_world "session_request ''jdoe''"]
    by (simp add: Getenv_def blank_group_world_def example_world_def session_request_def
        anonymous_request_def)
qed

end
